theory Spec2Isabelle
  imports Complex_Main "HOL-Library.Sublist" "HOL-Library.Log_Nat"
begin

section \<open>Python strings\<close>

text \<open>
  A Python \<open>str\<close> is modelled as a \<open>string\<close>, one \<open>char\<close> per code point, so the
  model covers text whose code points are below 256. On that range the builtins below
  are exact: \<open>str.isspace\<close> holds for the twelve code points listed, \<open>str.lower\<close>
  adds 32 to \<open>A\<close>..\<open>Z\<close> and to U+00C0..U+00DE without U+00D7, and leaves every other
  code point alone. \<open>kw in text\<close> on strings is \<open>sublist kw text\<close> and
  \<open>text.startswith(p)\<close> is \<open>prefix p text\<close>.
\<close>

definition isspace :: "char \<Rightarrow> bool" where
  "isspace c = (of_char c \<in> {9, 10, 11, 12, 13, 28, 29, 30, 31, 32, 133, 160 :: nat})"

definition lower_char :: "char \<Rightarrow> char" where
  "lower_char c =
     (let n = of_char c :: nat
      in if (65 \<le> n \<and> n \<le> 90) \<or> (192 \<le> n \<and> n \<le> 222 \<and> n \<noteq> 215)
         then char_of (n + 32) else c)"

definition lower :: "string \<Rightarrow> string" where
  "lower s = map lower_char s"

definition strip :: "string \<Rightarrow> string" where
  "strip s = rev (dropWhile isspace (rev (dropWhile isspace s)))"

text \<open>\<open>s.split('\n')\<close>: the pieces between line feeds; never the empty list.\<close>

fun split_nl :: "string \<Rightarrow> string list" where
  "split_nl [] = [[]]"
| "split_nl (c # cs) =
     (if c = CHR 0x0A then [] # split_nl cs
      else (case split_nl cs of [] \<Rightarrow> [[c]] | l # ls \<Rightarrow> (c # l) # ls))"

text \<open>\<open>sum(1 for keyword in keywords if keyword in text)\<close>\<close>

definition keyword_score :: "string list \<Rightarrow> string \<Rightarrow> int" where
  "keyword_score keywords text = int (length (filter (\<lambda>keyword. sublist keyword text) keywords))"

text \<open>
  \<open>max(xs, key=f)\<close>: the first element whose key no later element exceeds; \<open>None\<close>
  stands for the \<open>ValueError\<close> of an empty argument.
\<close>

fun max_from :: "('a \<Rightarrow> 'b::linorder) \<Rightarrow> 'a \<Rightarrow> 'a list \<Rightarrow> 'a" where
  "max_from key best [] = best"
| "max_from key best (x # xs) = max_from key (if key best < key x then x else best) xs"

fun py_max :: "('a \<Rightarrow> 'b::linorder) \<Rightarrow> 'a list \<Rightarrow> 'a option" where
  "py_max key [] = None"
| "py_max key (x # xs) = Some (max_from key x xs)"

section \<open>Numbers, exceptions and the farm context\<close>

text \<open>
  A Python number is an \<open>int\<close> or a \<open>float\<close>; a finite float is the rational it denotes.
\<close>

datatype number = PyInt int | PyFloat rat

datatype exception =
    AgriGuardException string
  | EmergencyTimeoutException rat number
  | AgentException string string
  | GroqAPIException string
  | JSONDecodeError
  | KeyError string
  | ValueError
  | AttributeError
  | TypeError
  | OtherException string

text \<open>
  Of the \<open>FarmContext\<close> the orchestrator and the base agent read the emergency level and
  the farmer's id. Its method \<open>is_emergency()\<close> is declared in \<open>models/farm_context.py\<close>,
  which is not among the sources; the functions that call it take it as the parameter
  \<open>is_emergency\<close>.
\<close>

record FarmContext =
  farmer_id :: string
  emergency_level :: int

section \<open>Emergency indicators of the base agent\<close>

text \<open>
  The structured response is a \<open>dict\<close>. The functions below read the keys
  \<open>emergency_detected\<close> and \<open>keywords_found\<close> with \<open>dict.get\<close> and test the truth value
  of the result, which is the same for an absent key and for a key that holds \<open>None\<close>:
  such a key is an \<open>option\<close> field, \<open>None\<close> standing for both. The value under
  \<open>emergency_score\<close> is compared with a number, and \<open>None > 1\<close> raises \<open>TypeError\<close>: there
  an absent key (\<open>Absent\<close>), a key holding \<open>None\<close> (\<open>Null\<close>) and a key holding a value
  of the field's type (\<open>Value\<close>) are kept apart.
\<close>

datatype 'a entry = Absent | Null | Value 'a

record emergency_indicators =
  emergency_detected :: "bool option"
  emergency_score :: "int entry"
  keywords_found :: "string list option"

definition emergency_keywords :: "string list" where
  "emergency_keywords =
     [''urgent'', ''immediate'', ''emergency'', ''critical'', ''severe'',
      ''outbreak'', ''spreading'', ''dying'', ''damage'', ''loss'']"

definition detect_emergency_indicators :: "string \<Rightarrow> emergency_indicators" where
  "detect_emergency_indicators text =
     (let text_lower = lower text;
          score = keyword_score emergency_keywords text_lower
      in \<lparr> emergency_detected = Some (score > 2),
           emergency_score = Value (min 5 score),
           keywords_found = Some (filter (\<lambda>kw. sublist kw text_lower) emergency_keywords) \<rparr>)"

section \<open>Agent selection\<close>

datatype agent = PestAgent | WeatherAgent | ResourceAgent | MarketAgent

text \<open>\<open>self.agents\<close>, the dictionary built by \<open>AgriGuardSystem.__init__\<close>.\<close>

definition agents :: "(string \<times> agent) list" where
  "agents = [(''pest'', PestAgent), (''weather'', WeatherAgent),
             (''resource'', ResourceAgent), (''market'', MarketAgent)]"

definition pest_keywords :: "string list" where
  "pest_keywords = [''pest'', ''insect'', ''bug'', ''caterpillar'', ''aphid'', ''worm'',
                    ''disease'', ''fungus'', ''leaf'', ''damage'', ''eating'']"

definition weather_keywords :: "string list" where
  "weather_keywords = [''weather'', ''rain'', ''storm'', ''hail'', ''wind'', ''temperature'',
                       ''frost'', ''drought'', ''flood'', ''climate'']"

definition resource_keywords :: "string list" where
  "resource_keywords = [''water'', ''irrigation'', ''fertilizer'', ''nutrient'', ''soil'',
                        ''efficiency'', ''cost'', ''resource'', ''optimize'']"

definition market_keywords :: "string list" where
  "market_keywords = [''price'', ''sell'', ''market'', ''buyer'', ''profit'', ''income'',
                      ''harvest'', ''trade'', ''export'']"

text \<open>The \<open>scores\<close> dictionary, in insertion order.\<close>

definition scores :: "string \<Rightarrow> (string \<times> int) list" where
  "scores query_lower =
     [(''pest'', keyword_score pest_keywords query_lower),
      (''weather'', keyword_score weather_keywords query_lower),
      (''resource'', keyword_score resource_keywords query_lower),
      (''market'', keyword_score market_keywords query_lower)]"

text \<open>
  \<open>max(scores.keys(), key=lambda k: scores[k])\<close> runs over the items in insertion order
  and keeps the key. The two subscripts \<open>scores['pest']\<close> and
  \<open>self.agents[best_agent_type]\<close> raise \<open>KeyError\<close> on a missing key.
\<close>

definition subscript :: "(string \<times> 'v) list \<Rightarrow> string \<Rightarrow> exception + 'v" where
  "subscript d k = (case map_of d k of None \<Rightarrow> Inl (KeyError k) | Some v \<Rightarrow> Inr v)"

definition select_best_agent :: "string \<Rightarrow> FarmContext \<Rightarrow> exception + agent" where
  "select_best_agent query context =
     (let query_lower = lower query;
          scores = scores query_lower
      in case py_max snd scores of
           None \<Rightarrow> Inl ValueError
         | Some (best_agent_type, _) \<Rightarrow>
             (if emergency_level context \<ge> 4
              then (case subscript scores ''pest'' of
                      Inl e \<Rightarrow> Inl e
                    | Inr pest_score \<Rightarrow>
                        subscript agents (if pest_score > 0 then ''pest'' else best_agent_type))
              else subscript agents best_agent_type))"

section \<open>The structured response and its scoring\<close>

text \<open>
  The dictionary that \<open>_parse_response\<close> returns, with the value types of the data model:
  a summary, the detailed text, the reported confidence, the action items and the
  emergency indicators. The keys \<open>summary\<close>, \<open>detailed_response\<close>, \<open>confidence\<close> and
  \<open>action_items\<close> are read with \<open>dict.get\<close> and tested for their truth value or compared
  with a string, so \<open>None\<close> again stands for an absent key and for a key holding \<open>None\<close>.
  The value under \<open>emergency_indicators\<close> is dereferenced (\<open>.get\<close> is called on it, and
  \<open>None\<close> has no such attribute), so the three cases are kept apart.
\<close>

record structured_response =
  summary :: "string option"
  detailed_response :: "string option"
  confidence :: "string option"
  action_items :: "string list option"
  emergency_indicators :: "emergency_indicators entry"

text \<open>The members of \<open>ResponseType\<close> and \<open>Confidence\<close> that the sources name.\<close>

datatype ResponseType = EMERGENCY | WARNING | ACTION_REQUIRED | ADVISORY

datatype Confidence = VERY_HIGH | HIGH | MEDIUM | LOW | VERY_LOW

text \<open>Truth value of \<open>d.get(k)\<close> for a string or list, and for a flag.\<close>

definition truthy_list :: "'a list option \<Rightarrow> bool" where
  "truthy_list v = (case v of None \<Rightarrow> False | Some xs \<Rightarrow> xs \<noteq> [])"

definition truthy_bool :: "bool option \<Rightarrow> bool" where
  "truthy_bool v = (case v of None \<Rightarrow> False | Some b \<Rightarrow> b)"

text \<open>
  \<open>structured_response.get('emergency_indicators', {})\<close>: the empty dictionary for an
  absent key, the stored value otherwise, which is \<open>None\<close> for a key holding \<open>None\<close>.
\<close>

definition get_emergency_indicators :: "structured_response \<Rightarrow> emergency_indicators option" where
  "get_emergency_indicators sr =
     (case emergency_indicators sr of
        Absent \<Rightarrow> Some \<lparr> emergency_detected = None, emergency_score = Absent,
                         keywords_found = None \<rparr>
      | Null \<Rightarrow> None
      | Value ind \<Rightarrow> Some ind)"

text \<open>
  \<open>x.get('emergency_detected')\<close> and \<open>x.get('emergency_score', 0) > 1\<close> for the value \<open>x\<close>
  just read: on \<open>None\<close> the attribute \<open>get\<close> is missing (\<open>AttributeError\<close>), and a score
  of \<open>None\<close> cannot be compared with 1 (\<open>TypeError\<close>).
\<close>

definition get_emergency_detected :: "emergency_indicators option \<Rightarrow> exception + bool" where
  "get_emergency_detected x =
     (case x of None \<Rightarrow> Inl AttributeError | Some ind \<Rightarrow> Inr (truthy_bool (emergency_detected ind)))"

definition emergency_score_exceeds_1 :: "emergency_indicators option \<Rightarrow> exception + bool" where
  "emergency_score_exceeds_1 x =
     (case x of
        None \<Rightarrow> Inl AttributeError
      | Some ind \<Rightarrow>
          (case emergency_score ind of
             Absent \<Rightarrow> Inr ((0::int) > 1)
           | Null \<Rightarrow> Inl TypeError
           | Value s \<Rightarrow> Inr (s > 1)))"

text \<open>
  The first condition is \<open>context.is_emergency() or ...\<close>: the dictionary is not read when
  the context is in an emergency state.
\<close>

definition determine_response_type ::
  "(FarmContext \<Rightarrow> bool) \<Rightarrow> structured_response \<Rightarrow> FarmContext \<Rightarrow> exception + ResponseType" where
  "determine_response_type is_emergency sr context =
     (if is_emergency context then Inr EMERGENCY
      else (case get_emergency_detected (get_emergency_indicators sr) of
              Inl e \<Rightarrow> Inl e
            | Inr True \<Rightarrow> Inr EMERGENCY
            | Inr False \<Rightarrow>
                (case emergency_score_exceeds_1 (get_emergency_indicators sr) of
                   Inl e \<Rightarrow> Inl e
                 | Inr True \<Rightarrow> Inr WARNING
                 | Inr False \<Rightarrow>
                     if truthy_list (action_items sr) then Inr ACTION_REQUIRED
                     else Inr ADVISORY)))"

subsection \<open>Binary floating point\<close>

text \<open>
  A Python \<open>float\<close> is an IEEE 754 binary64 number: 53 significant bits, results rounded
  to the nearest representable number, ties to the even significand. A finite float is
  the rational it denotes. \<open>double x\<close> is the float nearest to \<open>x\<close>: below \<open>2 powi -1022\<close>
  the floats are the multiples of \<open>2 powi -1074\<close>. It is what a decimal literal denotes,
  and \<open>fadd\<close>, \<open>fmul\<close> and \<open>fdiv\<close> are \<open>+\<close>, \<open>*\<close> and \<open>/\<close> on floats. Where Python's result
  is infinite (from \<open>2 powi 1024 - 2 powi 970\<close> on) \<open>double x\<close> is a rational that no
  finite float reaches, so it compares with every finite float as the infinity does.
\<close>

definition round_half_even :: "rat \<Rightarrow> int" where
  "round_half_even x =
     (let f = \<lfloor>x\<rfloor>; d = x - of_int f
      in if d < 1/2 then f else if 1/2 < d then f + 1 else if even f then f else f + 1)"

text \<open>The exponent \<open>e\<close> with \<open>2 powi e \<le> \<bar>x\<bar> < 2 powi (e + 1)\<close>, for \<open>x \<noteq> 0\<close>.\<close>

definition binade :: "rat \<Rightarrow> int" where
  "binade x =
     (let (p, q) = quotient_of \<bar>x\<bar>; e = bitlen p - bitlen q
      in if 2 powi e \<le> \<bar>x\<bar> then e else e - 1)"

definition double :: "rat \<Rightarrow> rat" where
  "double x =
     (if x = 0 then 0
      else (let ulp = 2 powi (max (binade x) (- 1022) - 52)
            in of_int (round_half_even (x / ulp)) * ulp))"

definition fadd :: "rat \<Rightarrow> rat \<Rightarrow> rat" where
  "fadd a b = double (a + b)"

definition fmul :: "rat \<Rightarrow> rat \<Rightarrow> rat" where
  "fmul a b = double (a * b)"

definition fdiv :: "rat \<Rightarrow> rat \<Rightarrow> rat" where
  "fdiv a b = double (a / b)"

definition calculate_confidence :: "structured_response \<Rightarrow> Confidence" where
  "calculate_confidence sr =
     (let score0 = double (7/10);
          score1 = (if truthy_list (detailed_response sr)
                       \<and> (case detailed_response sr of None \<Rightarrow> False | Some d \<Rightarrow> length d > 100)
                    then fadd score0 (double (1/10)) else score0);
          score2 = (if truthy_list (action_items sr)
                    then fadd score1 (double (1/10)) else score1);
          score3 = (if confidence sr = Some ''high''
                    then fadd score2 (double (1/10)) else score2)
      in if score3 \<ge> double (9/10) then VERY_HIGH
         else if score3 \<ge> double (3/4) then HIGH
         else if score3 \<ge> double (1/2) then MEDIUM
         else if score3 \<ge> double (1/4) then LOW
         else VERY_LOW)"

text \<open>
  The scoring as the specification words it, in exact arithmetic: base 0.7, plus 0.1 for
  a detailed text of more than 100 characters, plus 0.1 for at least one action item,
  plus 0.1 for a reported high confidence, then the thresholds.
\<close>

definition confidence_spec :: "nat \<Rightarrow> bool \<Rightarrow> bool \<Rightarrow> Confidence" where
  "confidence_spec detailed_length has_action_items reported_high =
     (let score = 7/10 + (if detailed_length > 100 then 1/10 else 0)
                       + (if has_action_items then 1/10 else 0)
                       + (if reported_high then 1/10 else (0::rat))
      in if score \<ge> 9/10 then VERY_HIGH
         else if score \<ge> 3/4 then HIGH
         else if score \<ge> 1/2 then MEDIUM
         else if score \<ge> 1/4 then LOW
         else VERY_LOW)"

section \<open>The base response parser\<close>

definition action_indicators :: "string list" where
  "action_indicators =
     [''immediately'', ''urgent'', ''action:'', ''do:'', ''apply:'', ''spray:'', ''contact:'']"

text \<open>
  \<open>line.replace('\<bullet>', '').replace('-', '').strip()\<close>: the bullet U+2022 is outside the
  code points of \<open>char\<close>, so only the hyphens are there to remove.
\<close>

definition clean_action :: "string \<Rightarrow> string" where
  "clean_action line = strip (filter (\<lambda>c. c \<noteq> CHR ''-'') line)"

fun action_lines :: "string list \<Rightarrow> string list" where
  "action_lines [] = []"
| "action_lines (line # rest) =
     (let line = strip line
      in if list_ex (\<lambda>indicator. sublist indicator (lower line)) action_indicators
         then (let action = clean_action line
               in if action \<noteq> [] \<and> length action > 10
                  then action # action_lines rest
                  else action_lines rest)
         else action_lines rest)"

definition extract_action_items :: "string \<Rightarrow> string list" where
  "extract_action_items text = take 5 (action_lines (split_nl text))"

text \<open>
  \<open>json.loads\<close> is the parameter \<open>json_loads\<close>: it returns the decoded dictionary or
  raises; of what it raises only \<open>JSONDecodeError\<close> is caught.
\<close>

definition parse_response ::
  "(string \<Rightarrow> exception + structured_response) \<Rightarrow> string \<Rightarrow> FarmContext
     \<Rightarrow> exception + structured_response" where
  "parse_response json_loads raw_response context =
     (let fallback =
        (let lines = split_nl (strip raw_response);
             summary = (case lines of [] \<Rightarrow> ''Agricultural advice provided'' | l # _ \<Rightarrow> l)
         in Inr \<lparr> summary = Some (take 200 summary),
                  detailed_response = Some raw_response,
                  confidence = Some ''medium'',
                  action_items = Some (extract_action_items raw_response),
                  emergency_indicators = Value (detect_emergency_indicators raw_response) \<rparr>)
      in if prefix ''{'' (strip raw_response)
         then (case json_loads raw_response of
                 Inr decoded \<Rightarrow> Inr decoded
               | Inl JSONDecodeError \<Rightarrow> fallback
               | Inl e \<Rightarrow> Inl e)
         else fallback)"

section \<open>The orchestrator\<close>

text \<open>
  An attribute of an \<open>AgentResponse\<close> that holds an enumeration member in one place of
  the sources and a plain string in another keeps either.
\<close>

datatype 'e enum_or_str = Member 'e | Str string

text \<open>
  The attributes of \<open>AgentResponse\<close> that the orchestrator reads or writes. The class is
  declared in \<open>models/agent_response.py\<close>, which is not among the sources; its method
  \<open>calculate_urgency_score\<close> is a parameter of the functions that call it, and the
  object that the constructor yields before the keyword arguments are stored is the
  field \<open>new_response\<close> of a call.
\<close>

record AgentResponse =
  response_id :: string
  agent_name :: string
  response_type :: "ResponseType enum_or_str"
  summary_attr :: string
  detailed_response_attr :: string
  confidence_score :: "Confidence enum_or_str"
  response_time_ms :: rat
  is_emergency_attr :: bool
  escalation_required :: bool

text \<open>The mutable attributes of the \<open>AgriGuardSystem\<close>.\<close>

record system =
  response_times :: "rat list"
  emergency_count :: int

text \<open>
  What one call of \<open>process_query\<close> meets outside the sources: the outcome of the
  selected agent's \<open>process_query\<close> (it calls the inference endpoint), the two readings
  \<open>(time.time() - start_time) * 1000\<close>, after the agent returned and in the handler, and
  the outcome of \<open>send_emergency_alert\<close> (\<open>None\<close>: it returned).
\<close>

record call =
  agent_process_query :: "agent \<Rightarrow> exception + AgentResponse"
  elapsed_ms :: rat
  elapsed_ms_handler :: rat
  send_emergency_alert :: "exception option"
  new_response :: AgentResponse

definition handle_emergency_response :: "call \<Rightarrow> AgentResponse \<Rightarrow> FarmContext \<Rightarrow> exception option" where
  "handle_emergency_response c response context =
     (if escalation_required response then send_emergency_alert c else None)"

text \<open>
  The first statement of the \<open>try\<close> block: the agent named by a non-empty \<open>agent_type\<close>,
  \<open>AgriGuardException\<close> when \<open>self.agents\<close> has no such key, the selected agent when
  \<open>agent_type\<close> is \<open>None\<close> or empty.
\<close>

definition resolve_agent :: "string \<Rightarrow> FarmContext \<Rightarrow> string option \<Rightarrow> exception + agent" where
  "resolve_agent query context agent_type =
     (case agent_type of
        None \<Rightarrow> select_best_agent query context
      | Some t \<Rightarrow>
          if t = [] then select_best_agent query context
          else (case map_of agents t of
                  None \<Rightarrow> Inl (AgriGuardException (''Unknown agent type: '' @ t))
                | Some a \<Rightarrow> Inr a))"

text \<open>
  \<open>settings.max_response_time * 1000\<close>, for the number \<open>settings.max_response_time\<close> that
  the missing \<open>config\<close> module holds (the parameter \<open>max_response_time\<close>): the exact
  product of an \<open>int\<close>, the rounded product of a \<open>float\<close>. The readings \<open>elapsed_ms\<close> are
  floats, and Python compares a float with an \<open>int\<close> or a float by their exact values.
\<close>

definition times_1000 :: "number \<Rightarrow> rat" where
  "times_1000 n = (case n of PyInt i \<Rightarrow> of_int (i * 1000) | PyFloat x \<Rightarrow> fmul x 1000)"

text \<open>
  The body of the \<open>try\<close> block: the response it returns or the exception it raises,
  with the state as the statements before left it.
\<close>

definition process_query_try ::
  "(FarmContext \<Rightarrow> bool) \<Rightarrow> number \<Rightarrow> call \<Rightarrow> system \<Rightarrow> string \<Rightarrow> FarmContext \<Rightarrow> string option
     \<Rightarrow> (exception + AgentResponse) \<times> system" where
  "process_query_try is_emergency max_response_time c sys query context agent_type =
     (case resolve_agent query context agent_type of
        Inl e \<Rightarrow> (Inl e, sys)
      | Inr agent \<Rightarrow>
          (case agent_process_query c agent of
             Inl e \<Rightarrow> (Inl e, sys)
           | Inr response \<Rightarrow>
               (let response_time = elapsed_ms c;
                    response = response \<lparr> response_time_ms := response_time \<rparr>;
                    sys = sys \<lparr> response_times := response_times sys @ [response_time] \<rparr>;
                    sys = (if is_emergency_attr response
                           then sys \<lparr> emergency_count := emergency_count sys + 1 \<rparr> else sys);
                    handled = (if is_emergency_attr response
                               then handle_emergency_response c response context else None)
                in case handled of
                     Some e \<Rightarrow> (Inl e, sys)
                   | None \<Rightarrow>
                       (if is_emergency context \<and> response_time > times_1000 max_response_time
                        then (Inl (EmergencyTimeoutException (fdiv response_time 1000)
                                     max_response_time), sys)
                        else (Inr response, sys)))))"

text \<open>The response built in the handler; \<open>str\<close> is \<open>str(e)\<close> of the exception classes.\<close>

definition error_response ::
  "(FarmContext \<Rightarrow> bool) \<Rightarrow> (exception \<Rightarrow> string) \<Rightarrow> call \<Rightarrow> FarmContext \<Rightarrow> exception
     \<Rightarrow> AgentResponse" where
  "error_response is_emergency str c context e =
     (new_response c)
       \<lparr> agent_name := ''system'',
         response_type := Str (if is_emergency context then ''emergency'' else ''information''),
         summary_attr := ''System error: '' @ str e,
         detailed_response_attr := ''An error occurred while processing your query: '' @ str e,
         confidence_score := Str ''low'',
         response_time_ms := elapsed_ms_handler c \<rparr>"

definition process_query ::
  "(FarmContext \<Rightarrow> bool) \<Rightarrow> number \<Rightarrow> (exception \<Rightarrow> string) \<Rightarrow> call \<Rightarrow> system \<Rightarrow> string
     \<Rightarrow> FarmContext \<Rightarrow> string option \<Rightarrow> AgentResponse \<times> system" where
  "process_query is_emergency max_response_time str c sys query context agent_type =
     (case process_query_try is_emergency max_response_time c sys query context agent_type of
        (Inr response, sys') \<Rightarrow> (response, sys')
      | (Inl e, sys') \<Rightarrow> (error_response is_emergency str c context e, sys'))"

subsection \<open>Batches\<close>

text \<open>\<open>str(n)\<close> of a natural number, for the text \<open>Batch of n queries\<close>.\<close>

fun str_nat :: "nat \<Rightarrow> string" where
  "str_nat n =
     (if n < 10 then [char_of (48 + n)]
      else str_nat (n div 10) @ [char_of (48 + n mod 10)])"

declare str_nat.simps [simp del]

text \<open>
  Of the \<open>BatchResponse\<close> (declared in \<open>models/agent_response.py\<close>) the attributes that
  \<open>process_batch_queries\<close> sets; \<open>primary_response\<close> is \<open>None\<close> as long as the function
  has not assigned it.
\<close>

record BatchResponse =
  query_attr :: string
  responses :: "AgentResponse list"
  total_response_time_ms :: rat
  primary_response :: "string option"

text \<open>
  The first loop: the arguments of each task. \<open>query_info['query']\<close> raises \<open>KeyError\<close>
  when the key is missing, outside any handler; \<open>query_info.get('agent_type')\<close> does not.
\<close>

fun task_arguments :: "(string \<times> string) list list \<Rightarrow> exception + (string \<times> string option) list" where
  "task_arguments [] = Inr []"
| "task_arguments (query_info # rest) =
     (case subscript query_info ''query'' of
        Inl e \<Rightarrow> Inl e
      | Inr q \<Rightarrow>
          (case task_arguments rest of
             Inl e \<Rightarrow> Inl e
           | Inr args \<Rightarrow> Inr ((q, map_of query_info ''agent_type'') # args)))"

text \<open>
  \<open>asyncio.gather(*tasks, return_exceptions=True)\<close>: the result of each task, in the
  order of submission, an exception that a task raised standing in its place. Task \<open>i\<close>
  meets \<open>calls i\<close>. The tasks are interleaved at their \<open>await\<close>s; here they update the
  state in the order of submission, which the responses do not depend on.
\<close>

fun gather ::
  "(FarmContext \<Rightarrow> bool) \<Rightarrow> number \<Rightarrow> (exception \<Rightarrow> string) \<Rightarrow> (nat \<Rightarrow> call) \<Rightarrow> FarmContext
     \<Rightarrow> nat \<Rightarrow> system \<Rightarrow> (string \<times> string option) list
     \<Rightarrow> (exception + AgentResponse) list \<times> system" where
  "gather is_emergency max_response_time str calls context i sys [] = ([], sys)"
| "gather is_emergency max_response_time str calls context i sys ((q, t) # rest) =
     (case process_query is_emergency max_response_time str (calls i) sys q context t of
        (response, sys') \<Rightarrow>
          (case gather is_emergency max_response_time str calls context (Suc i) sys' rest of
             (results, sys'') \<Rightarrow> (Inr response # results, sys'')))"

text \<open>
  \<open>calculate_urgency_score\<close> is the method of \<open>AgentResponse\<close>; \<open>batch_elapsed_ms\<close> is the
  reading \<open>(time.time() - start_time) * 1000\<close> of the batch.
\<close>

definition process_batch_queries ::
  "(FarmContext \<Rightarrow> bool) \<Rightarrow> number \<Rightarrow> (exception \<Rightarrow> string) \<Rightarrow> (AgentResponse \<Rightarrow> 'u::linorder)
     \<Rightarrow> (nat \<Rightarrow> call) \<Rightarrow> rat \<Rightarrow> system \<Rightarrow> (string \<times> string) list list \<Rightarrow> FarmContext
     \<Rightarrow> (exception + BatchResponse) \<times> system" where
  "process_batch_queries is_emergency max_response_time str calculate_urgency_score calls
       batch_elapsed_ms sys queries context =
     (case task_arguments queries of
        Inl e \<Rightarrow> (Inl e, sys)
      | Inr tasks \<Rightarrow>
          (case gather is_emergency max_response_time str calls context 0 sys tasks of
             (results, sys') \<Rightarrow>
               (let valid_responses = [r. Inr r \<leftarrow> results];
                    batch = \<lparr> query_attr = ''Batch of '' @ str_nat (length queries) @ '' queries'',
                              responses = valid_responses,
                              total_response_time_ms = batch_elapsed_ms,
                              primary_response = None \<rparr>
                in if valid_responses \<noteq> []
                   then (case py_max calculate_urgency_score valid_responses of
                           None \<Rightarrow> (Inl ValueError, sys')
                         | Some primary \<Rightarrow>
                             (Inr (batch \<lparr> primary_response := Some (response_id primary) \<rparr>), sys'))
                   else (Inr batch, sys'))))"

section \<open>Example inputs\<close>

text \<open>
  Instances of the parameters, for evaluating the functions at concrete inputs: a context
  counts as an emergency from level 3 on, \<open>str(e)\<close> is the message of the exception, an
  emergency response scores 10 and any other response 1, the response-time budget is 5
  seconds.
\<close>

definition example_is_emergency :: "FarmContext \<Rightarrow> bool" where
  "example_is_emergency context = (emergency_level context \<ge> 3)"

definition example_str :: "exception \<Rightarrow> string" where
  "example_str e =
     (case e of
        AgriGuardException m \<Rightarrow> m
      | AgentException a m \<Rightarrow> a @ '': '' @ m
      | GroqAPIException m \<Rightarrow> m
      | EmergencyTimeoutException t b \<Rightarrow> ''Emergency response exceeded the time limit''
      | KeyError k \<Rightarrow> k
      | OtherException m \<Rightarrow> m
      | _ \<Rightarrow> [])"

definition example_urgency :: "AgentResponse \<Rightarrow> int" where
  "example_urgency r = (if is_emergency_attr r then 10 else 1)"

definition calm_context :: FarmContext where
  "calm_context = \<lparr> farmer_id = ''demo_farmer_001'', emergency_level = 1 \<rparr>"

definition urgent_context :: FarmContext where
  "urgent_context = \<lparr> farmer_id = ''demo_farmer_001'', emergency_level = 4 \<rparr>"

definition idle_system :: system where
  "idle_system = \<lparr> response_times = [], emergency_count = 0 \<rparr>"

definition pest_response :: AgentResponse where
  "pest_response =
     \<lparr> response_id = ''response-pest'',
       agent_name = ''emergency_pest_agent'',
       response_type = Member EMERGENCY,
       summary_attr = ''PEST ALERT: aphids detected'',
       detailed_response_attr = ''Spray neem oil within 24 hours.'',
       confidence_score = Member HIGH,
       response_time_ms = 0,
       is_emergency_attr = True,
       escalation_required = True \<rparr>"

definition blank_response :: "string \<Rightarrow> AgentResponse" where
  "blank_response rid =
     \<lparr> response_id = rid,
       agent_name = [],
       response_type = Str [],
       summary_attr = [],
       detailed_response_attr = [],
       confidence_score = Str [],
       response_time_ms = 0,
       is_emergency_attr = False,
       escalation_required = False \<rparr>"

text \<open>A call whose agent answers after 6 seconds, and one whose inference request fails.\<close>

definition slow_call :: call where
  "slow_call =
     \<lparr> agent_process_query = (\<lambda>a. Inr pest_response),
       elapsed_ms = 6000,
       elapsed_ms_handler = 6001,
       send_emergency_alert = None,
       new_response = blank_response ''response-slow'' \<rparr>"

definition failing_call :: call where
  "failing_call =
     \<lparr> agent_process_query =
         (\<lambda>a. Inl (AgentException ''weather_agent''
                 ''Query processing failed: Network error calling Groq API'')),
       elapsed_ms = 0,
       elapsed_ms_handler = 250,
       send_emergency_alert = None,
       new_response = blank_response ''response-failed'' \<rparr>"

definition quick_call :: call where
  "quick_call =
     \<lparr> agent_process_query = (\<lambda>a. Inr pest_response),
       elapsed_ms = 400,
       elapsed_ms_handler = 401,
       send_emergency_alert = None,
       new_response = blank_response ''response-quick'' \<rparr>"

definition example_calls :: "nat \<Rightarrow> call" where
  "example_calls i = (if i = 0 then quick_call else failing_call)"

definition example_queries :: "(string \<times> string) list list" where
  "example_queries =
     [[(''query'', ''Aphids on my wheat leaves''), (''agent_type'', ''pest'')],
      [(''query'', ''Will it rain tomorrow?''), (''agent_type'', ''weather'')]]"

section \<open>Properties\<close>

lemma keyword_score_card:
  "distinct keywords \<Longrightarrow>
   keyword_score keywords text = int (card {kw \<in> set keywords. sublist kw text})"
  unfolding keyword_score_def
  by (metis distinct_card distinct_filter set_filter)

lemma distinct_emergency_keywords: "distinct emergency_keywords"
  by (simp add: emergency_keywords_def)

text \<open>
  C8. For every raw text, the emergency score that the base parser reports is the number
  of distinct emergency keywords occurring as substrings of the lowercased text, capped
  at 5, and \<open>emergency_detected\<close> is true exactly when the uncapped number exceeds 2.
\<close>

theorem detect_emergency_indicators_count:
  "emergency_score (detect_emergency_indicators text)
     = Value (min 5 (int (card {kw \<in> set emergency_keywords. sublist kw (lower text)})))
   \<and> emergency_detected (detect_emergency_indicators text)
     = Some (2 < card {kw \<in> set emergency_keywords. sublist kw (lower text)})"
  using keyword_score_card [OF distinct_emergency_keywords, of "lower text"]
  by (simp add: detect_emergency_indicators_def Let_def)

text \<open>
  C2. For every query and every context with \<open>emergency_level \<ge> 4\<close>, a pest keyword score
  above zero makes the selector return the pest agent, whatever the other scores are.
\<close>

theorem select_best_agent_pest_override:
  assumes "emergency_level context \<ge> 4"
    and "keyword_score pest_keywords (lower query) > 0"
  shows "select_best_agent query context = Inr PestAgent"
  using assms
  by (simp add: select_best_agent_def scores_def subscript_def agents_def Let_def
        split: prod.splits)

theorem select_best_agent_pest_override_witness:
  "emergency_level \<lparr> farmer_id = ''farmer_1'', emergency_level = 4 \<rparr> \<ge> 4
   \<and> 0 < keyword_score pest_keywords (lower ''Bug in rain storm'')
   \<and> keyword_score pest_keywords (lower ''Bug in rain storm'')
       < keyword_score weather_keywords (lower ''Bug in rain storm'')
   \<and> select_best_agent ''Bug in rain storm'' \<lparr> farmer_id = ''farmer_1'', emergency_level = 4 \<rparr>
       = Inr PestAgent"
proof -
  have pest: "keyword_score pest_keywords (lower ''Bug in rain storm'') = 1"
    by code_simp
  have weather: "keyword_score weather_keywords (lower ''Bug in rain storm'') = 2"
    by code_simp
  show ?thesis
    using select_best_agent_pest_override
      [of "\<lparr> farmer_id = ''farmer_1'', emergency_level = 4 \<rparr>" "''Bug in rain storm''"]
    by (simp add: pest weather)
qed

text \<open>
  C6, as the code has it. For every structured response and context the outcome follows
  one fixed precedence, the first matching rule deciding: EMERGENCY when the context is
  in an emergency state (the structured response is then not read); else
  \<open>AttributeError\<close> is raised when the key \<open>emergency_indicators\<close> holds \<open>None\<close>; else
  EMERGENCY when the indicators carry a true \<open>emergency_detected\<close>; else \<open>TypeError\<close> is
  raised when the key \<open>emergency_score\<close> holds \<open>None\<close>; else WARNING when the emergency
  score exceeds 1; else ACTION_REQUIRED when there is an action item; else ADVISORY.
\<close>

theorem determine_response_type_precedence:
  "determine_response_type is_emergency sr context =
     (if is_emergency context
      then Inr EMERGENCY
      else if emergency_indicators sr = Null
      then Inl AttributeError
      else if (\<exists>ind. emergency_indicators sr = Value ind \<and> emergency_detected ind = Some True)
      then Inr EMERGENCY
      else if (\<exists>ind. emergency_indicators sr = Value ind \<and> emergency_score ind = Null)
      then Inl TypeError
      else if (\<exists>ind s. emergency_indicators sr = Value ind \<and> emergency_score ind = Value s \<and> 1 < s)
      then Inr WARNING
      else if (\<exists>items. action_items sr = Some items \<and> items \<noteq> [])
      then Inr ACTION_REQUIRED
      else Inr ADVISORY)"
proof (cases "emergency_indicators sr")
  case Absent
  then show ?thesis
    by (simp add: determine_response_type_def get_emergency_indicators_def
          get_emergency_detected_def emergency_score_exceeds_1_def truthy_bool_def
          truthy_list_def split: option.splits)
next
  case Null
  then show ?thesis
    by (simp add: determine_response_type_def get_emergency_indicators_def
          get_emergency_detected_def)
next
  case (Value ind)
  then show ?thesis
    by (cases "emergency_score ind"; cases "emergency_detected ind")
      (auto simp: determine_response_type_def get_emergency_indicators_def
          get_emergency_detected_def emergency_score_exceeds_1_def truthy_bool_def
          truthy_list_def split: option.splits)
qed

text \<open>
  C6 as stated fails: outside an emergency, a structured response with an action item
  whose key \<open>emergency_indicators\<close> holds \<open>None\<close> (the decoded \<open>null\<close> of a JSON answer,
  which \<open>_parse_response\<close> hands through) gets no category, \<open>AttributeError\<close> is raised;
  and one whose indicators hold \<open>None\<close> under \<open>emergency_score\<close> raises \<open>TypeError\<close>.
\<close>

theorem determine_response_type_null_counterexample:
  "determine_response_type example_is_emergency
     \<lparr> summary = Some ''Aphids on wheat'',
       detailed_response = Some ''Aphids on wheat. Spray: neem oil at dawn'',
       confidence = Some ''medium'',
       action_items = Some [''Spray: neem oil at dawn''],
       emergency_indicators = Null \<rparr> calm_context = Inl AttributeError
   \<and> determine_response_type example_is_emergency
     \<lparr> summary = Some ''Aphids on wheat'',
       detailed_response = Some ''Aphids on wheat. Spray: neem oil at dawn'',
       confidence = Some ''medium'',
       action_items = Some [''Spray: neem oil at dawn''],
       emergency_indicators =
         Value \<lparr> emergency_detected = Some False, emergency_score = Null,
                 keywords_found = Some [] \<rparr> \<rparr> calm_context = Inl TypeError
   \<and> \<not> example_is_emergency calm_context"
  by (simp add: determine_response_type_def get_emergency_indicators_def
        get_emergency_detected_def emergency_score_exceeds_1_def truthy_bool_def
        example_is_emergency_def calm_context_def)

subsection \<open>The confidence score in binary floating point\<close>

text \<open>
  The exponent brackets its argument, and \<open>double\<close> is within half a unit in the last
  place of it.
\<close>

lemma bitlen_powi_bounds:
  assumes "0 < (n::int)"
  shows "2 powi (bitlen n - 1) \<le> (of_int n :: rat) \<and> (of_int n :: rat) < 2 powi bitlen n"
proof -
  have b: "1 \<le> bitlen n"
    using assms bitlen_eq_zero_iff [of n] bitlen_nonneg [of n] by linarith
  from bitlen_bounds [OF assms] have
    lo: "2 ^ nat (bitlen n - 1) \<le> n" and hi: "n < 2 ^ nat (bitlen n)"
    by simp_all
  have "(of_int (2 ^ nat (bitlen n - 1)) :: rat) \<le> of_int n"
    using lo by (simp only: of_int_le_iff)
  then have l: "(2 :: rat) ^ nat (bitlen n - 1) \<le> of_int n"
    by simp
  have "(of_int n :: rat) < of_int (2 ^ nat (bitlen n))"
    using hi by (simp only: of_int_less_iff)
  then have h: "(of_int n :: rat) < 2 ^ nat (bitlen n)"
    by simp
  have p1: "(2 :: rat) powi (bitlen n - 1) = 2 ^ nat (bitlen n - 1)"
    using b by (simp add: power_int_def)
  have p2: "(2 :: rat) powi bitlen n = 2 ^ nat (bitlen n)"
    using b by (simp add: power_int_def)
  show ?thesis
    using l h by (simp add: p1 p2)
qed

lemma binade_bounds:
  assumes "0 < x"
  shows "2 powi binade x \<le> x \<and> x < 2 powi (binade x + 1)"
proof -
  obtain p q where pq: "quotient_of x = (p, q)"
    by (cases "quotient_of x")
  have q: "0 < q" using pq by (rule quotient_of_denom_pos)
  have x: "x = of_int p / of_int q" using pq by (rule quotient_of_div)
  have p: "0 < p"
    using assms q unfolding x by (simp add: zero_less_divide_iff)
  define e where "e = bitlen p - bitlen q"
  from bitlen_powi_bounds [OF p] have
    pl: "2 powi (bitlen p - 1) \<le> (of_int p :: rat)" and ph: "(of_int p :: rat) < 2 powi bitlen p"
    by simp_all
  from bitlen_powi_bounds [OF q] have
    ql: "2 powi (bitlen q - 1) \<le> (of_int q :: rat)" and qh: "(of_int q :: rat) < 2 powi bitlen q"
    by simp_all
  have pos: "\<And>k. (0 :: rat) < 2 powi k"
    by simp
  have "x < 2 powi bitlen p / 2 powi (bitlen q - 1)"
    unfolding x using p ph ql pos [of "bitlen q - 1"]
    by (intro frac_less) simp_all
  also have "\<dots> = 2 powi (e + 1)"
    by (simp add: e_def power_int_diff [symmetric] algebra_simps)
  finally have hi: "x < 2 powi (e + 1)" .
  have "2 powi (bitlen p - 1) / 2 powi bitlen q < x"
    unfolding x using pl qh q pos [of "bitlen p - 1"]
    by (intro frac_less2) simp_all
  moreover have "2 powi (bitlen p - 1) / 2 powi bitlen q = (2 :: rat) powi (e - 1)"
    by (simp add: e_def power_int_diff [symmetric] algebra_simps)
  ultimately have lo: "2 powi (e - 1) < x"
    by simp
  have b: "binade x = (if 2 powi e \<le> x then e else e - 1)"
    using assms by (simp add: binade_def pq e_def Let_def)
  show ?thesis
  proof (cases "2 powi e \<le> x")
    case True
    then show ?thesis using hi b by simp
  next
    case False
    then show ?thesis using lo b by simp
  qed
qed

lemma round_half_even_nearest:
  "\<bar>of_int (round_half_even y) - y\<bar> \<le> 1/2"
proof -
  define d where "d = y - of_int \<lfloor>y\<rfloor>"
  have d0: "0 \<le> d" and d1: "d < 1"
    unfolding d_def by linarith+
  have r: "round_half_even y
      = (if d < 1/2 then \<lfloor>y\<rfloor> else if 1/2 < d then \<lfloor>y\<rfloor> + 1
         else if even \<lfloor>y\<rfloor> then \<lfloor>y\<rfloor> else \<lfloor>y\<rfloor> + 1)"
    by (simp add: round_half_even_def d_def Let_def)
  have down: "\<bar>of_int \<lfloor>y\<rfloor> - y\<bar> = d"
    using d0 by (simp add: d_def)
  have up: "\<bar>of_int (\<lfloor>y\<rfloor> + 1) - y\<bar> = 1 - d"
    using d1 by (simp add: d_def)
  consider (lo) "d < 1/2" | (hi) "1/2 < d" | (tie) "d = 1/2"
    by linarith
  then show ?thesis
  proof cases
    case lo
    then have "round_half_even y = \<lfloor>y\<rfloor>" using r by simp
    then show ?thesis using down lo by linarith
  next
    case hi
    then have "round_half_even y = \<lfloor>y\<rfloor> + 1" using r by simp
    then show ?thesis using up hi by linarith
  next
    case tie
    then have "round_half_even y = \<lfloor>y\<rfloor> \<or> round_half_even y = \<lfloor>y\<rfloor> + 1"
      using r by simp
    then show ?thesis using down up tie by (elim disjE) linarith+
  qed
qed

lemma double_nearest:
  assumes "x \<noteq> 0"
  shows "\<bar>double x - x\<bar> \<le> 2 powi (max (binade x) (- 1022) - 53)"
proof -
  define ulp :: rat where "ulp = 2 powi (max (binade x) (- 1022) - 52)"
  have ulp: "0 < ulp" by (simp add: ulp_def)
  have d: "double x = of_int (round_half_even (x / ulp)) * ulp"
    using assms by (simp add: double_def ulp_def Let_def)
  have "double x - x = (of_int (round_half_even (x / ulp)) - x / ulp) * ulp"
    using ulp by (simp add: d algebra_simps)
  then have "\<bar>double x - x\<bar> = \<bar>of_int (round_half_even (x / ulp)) - x / ulp\<bar> * ulp"
    using ulp by (simp add: abs_mult)
  also have "\<dots> \<le> 1/2 * ulp"
    using round_half_even_nearest [of "x / ulp"] ulp by (intro mult_right_mono) simp_all
  also have "\<dots> = 2 powi (max (binade x) (- 1022) - 53)"
    by (simp add: ulp_def power_int_diff)
  finally show ?thesis .
qed

text \<open>The literals of \<open>_calculate_confidence\<close> as floats.\<close>

lemma double_7_10: "double (7/10) = 3152519739159347/4503599627370496"
  by code_simp

lemma double_1_10: "double (1/10) = 3602879701896397/36028797018963968"
  by code_simp

lemma double_9_10: "double (9/10) = 8106479329266893/9007199254740992"
  by code_simp

lemma double_3_4: "double (3/4) = 3/4"
  by code_simp

lemma double_1_2: "double (1/2) = 1/2"
  by code_simp

lemma double_1_4: "double (1/4) = 1/4"
  by code_simp

text \<open>\<open>0.7 + 0.1\<close>, \<open>0.7 + 0.1 + 0.1\<close> and \<open>0.7 + 0.1 + 0.1 + 0.1\<close> on floats.\<close>

lemma fadd_one_bonus:
  "fadd (3152519739159347/4503599627370496) (3602879701896397/36028797018963968)
     = 7205759403792793/9007199254740992"
  by code_simp

lemma fadd_two_bonuses:
  "fadd (7205759403792793/9007199254740992) (3602879701896397/36028797018963968)
     = 2026619832316723/2251799813685248"
  by code_simp

lemma fadd_three_bonuses:
  "fadd (2026619832316723/2251799813685248) (3602879701896397/36028797018963968)
     = 9007199254740991/9007199254740992"
  by code_simp

text \<open>
  What the float arithmetic comes to: all three additions give VERY_HIGH, one or two give
  HIGH (two additions give 0.8999999999999999, below the float 0.9), none gives MEDIUM.
\<close>

lemma calculate_confidence_table:
  "calculate_confidence sr =
     (let b1 = (truthy_list (detailed_response sr)
                  \<and> (case detailed_response sr of None \<Rightarrow> False | Some d \<Rightarrow> length d > 100));
          b2 = truthy_list (action_items sr);
          b3 = (confidence sr = Some ''high'')
      in if b1 \<and> b2 \<and> b3 then VERY_HIGH
         else if b1 \<or> b2 \<or> b3 then HIGH else MEDIUM)"
  unfolding calculate_confidence_def Let_def
  by (simp add: double_7_10 double_1_10 double_9_10 double_3_4 double_1_2 double_1_4
        fadd_one_bonus fadd_two_bonuses fadd_three_bonuses)

text \<open>
  The source and the scoring in exact arithmetic agree except where exactly two of the
  three additions apply.
\<close>

lemma calculate_confidence_against_spec:
  "calculate_confidence sr
     = confidence_spec (case detailed_response sr of None \<Rightarrow> 0 | Some d \<Rightarrow> length d)
         (truthy_list (action_items sr)) (confidence sr = Some ''high'')
   \<longleftrightarrow> \<not> ((case detailed_response sr of None \<Rightarrow> False | Some d \<Rightarrow> length d > 100)
            \<and> truthy_list (action_items sr) \<and> confidence sr \<noteq> Some ''high''
          \<or> (case detailed_response sr of None \<Rightarrow> False | Some d \<Rightarrow> length d > 100)
            \<and> \<not> truthy_list (action_items sr) \<and> confidence sr = Some ''high''
          \<or> \<not> (case detailed_response sr of None \<Rightarrow> False | Some d \<Rightarrow> length d > 100)
            \<and> truthy_list (action_items sr) \<and> confidence sr = Some ''high'')"
  by (cases "detailed_response sr")
    (auto simp: calculate_confidence_table confidence_spec_def truthy_list_def Let_def)

text \<open>
  C5, at a text of 101 characters with one action item and a reported medium confidence:
  the source adds 0.1 twice in floats and returns HIGH; the score as the claim words it
  is 0.9, which maps to VERY_HIGH.
\<close>

theorem calculate_confidence_two_bonuses:
  "calculate_confidence
     \<lparr> summary = Some ''Aphids on wheat'',
       detailed_response = Some (replicate 101 (CHR ''a'')),
       confidence = Some ''medium'',
       action_items = Some [''Spray: neem oil at dawn''],
       emergency_indicators = Absent \<rparr> = HIGH
   \<and> confidence_spec 101 True False = VERY_HIGH"
  by (simp add: calculate_confidence_table truthy_list_def confidence_spec_def)

text \<open>
  C9. For every structured response the confidence that the base scorer computes is
  MEDIUM, HIGH or VERY_HIGH; LOW and VERY_LOW are never returned.
\<close>

theorem calculate_confidence_at_least_medium:
  "calculate_confidence sr = MEDIUM
   \<or> calculate_confidence sr = HIGH
   \<or> calculate_confidence sr = VERY_HIGH"
  by (simp add: calculate_confidence_table Let_def)

subsection \<open>The orchestrator\<close>

lemma max_from_first_max:
  "\<exists>pre post. best # xs = pre @ max_from key best xs # post
     \<and> (\<forall>y\<in>set pre. key y < key (max_from key best xs))
     \<and> (\<forall>y\<in>set post. key y \<le> key (max_from key best xs))"
proof (induction xs arbitrary: best)
  case Nil
  show ?case by (rule exI [of _ "[]"], rule exI [of _ "[]"]) simp
next
  case (Cons x xs)
  show ?case
  proof (cases "key best < key x")
    case True
    define m where "m = max_from key x xs"
    have m: "max_from key best (x # xs) = m" using True by (simp add: m_def)
    from Cons.IH [of x] obtain pre post where
      d: "x # xs = pre @ m # post"
      and lt: "\<forall>y\<in>set pre. key y < key m"
      and le: "\<forall>y\<in>set post. key y \<le> key m"
      unfolding m_def by blast
    have "x \<in> set (pre @ m # post)" using d by (metis list.set_intros(1))
    then have "key x \<le> key m" using lt le by fastforce
    then have "key best < key m" using True by simp
    then have "best # x # xs = (best # pre) @ m # post
      \<and> (\<forall>y\<in>set (best # pre). key y < key m) \<and> (\<forall>y\<in>set post. key y \<le> key m)"
      using d lt le by simp
    then show ?thesis unfolding m by blast
  next
    case False
    define m where "m = max_from key best xs"
    have m: "max_from key best (x # xs) = m" using False by (simp add: m_def)
    from Cons.IH [of best] obtain pre post where
      d: "best # xs = pre @ m # post"
      and lt: "\<forall>y\<in>set pre. key y < key m"
      and le: "\<forall>y\<in>set post. key y \<le> key m"
      unfolding m_def by blast
    show ?thesis
    proof (cases pre)
      case Nil
      then have "m = best" "post = xs" using d by simp_all
      then have "best # x # xs = [] @ m # (x # post)
        \<and> (\<forall>y\<in>set []. key y < key m) \<and> (\<forall>y\<in>set (x # post). key y \<le> key m)"
        using False le by auto
      then show ?thesis unfolding m by blast
    next
      case (Cons p pre')
      then have pb: "p = best" and d': "xs = pre' @ m # post" using d by simp_all
      have "key best < key m" using lt Cons pb by simp
      then have "key x < key m" using False by simp
      then have "best # x # xs = (best # x # pre') @ m # post
        \<and> (\<forall>y\<in>set (best # x # pre'). key y < key m) \<and> (\<forall>y\<in>set post. key y \<le> key m)"
        using d' lt le Cons pb by simp
      then show ?thesis unfolding m by blast
    qed
  qed
qed

lemma py_max_first_max:
  "xs \<noteq> [] \<Longrightarrow> \<exists>pre m post. py_max key xs = Some m \<and> xs = pre @ m # post
     \<and> (\<forall>y\<in>set pre. key y < key m) \<and> (\<forall>y\<in>set post. key y \<le> key m)"
  using max_from_first_max [of "hd xs" "tl xs" key]
  by (cases xs) auto

lemma process_query_try_state:
  "fst (process_query_try is_emergency max_response_time c sys query context agent_type)
     = fst (process_query_try is_emergency max_response_time c sys' query context agent_type)"
  unfolding process_query_try_def Let_def
  by (auto split: sum.splits option.splits)

lemma fst_process_query:
  "fst (process_query is_emergency max_response_time str c sys query context agent_type)
     = (case fst (process_query_try is_emergency max_response_time c sys query context agent_type) of
          Inr response \<Rightarrow> response
        | Inl e \<Rightarrow> error_response is_emergency str c context e)"
  by (simp add: process_query_def split: prod.splits sum.splits)

lemma process_query_response_state:
  "fst (process_query is_emergency max_response_time str c sys query context agent_type)
     = fst (process_query is_emergency max_response_time str c sys' query context agent_type)"
  unfolding fst_process_query
  using process_query_try_state [of is_emergency max_response_time c sys query "context" agent_type "sys'"]
  by simp

lemma fst_gather:
  "fst (gather is_emergency max_response_time str calls context i sys tasks)
     = map (\<lambda>(k, q, t). Inr (fst (process_query is_emergency max_response_time str (calls k) sys0 q context t)))
         (enumerate i tasks)"
proof (induction tasks arbitrary: i sys)
  case Nil
  show ?case by simp
next
  case (Cons a tasks)
  obtain q t where a: "a = (q, t)" by (cases a)
  obtain r s where p: "process_query is_emergency max_response_time str (calls i) sys q context t = (r, s)"
    by (cases "process_query is_emergency max_response_time str (calls i) sys q context t")
  have r: "r = fst (process_query is_emergency max_response_time str (calls i) sys0 q context t)"
    using p process_query_response_state [of is_emergency max_response_time str "calls i" sys q "context" t sys0]
    by simp
  have "fst (gather is_emergency max_response_time str calls context i sys (a # tasks))
      = Inr r # fst (gather is_emergency max_response_time str calls context (Suc i) s tasks)"
    by (simp add: a p split: prod.splits)
  then show ?case
    using Cons.IH [of "Suc i" s] by (simp add: a r)
qed

lemma task_arguments_present:
  assumes "\<forall>query_info\<in>set queries. \<exists>q. map_of query_info ''query'' = Some q"
  shows "task_arguments queries
     = Inr (map (\<lambda>query_info. (the (map_of query_info ''query''), map_of query_info ''agent_type'')) queries)"
  using assms by (induction queries) (auto simp: subscript_def)

lemma valid_responses_all:
  "(\<And>x. h x = Inr (f x)) \<Longrightarrow> [r. Inr r \<leftarrow> map h xs] = map f xs"
  by (induction xs) simp_all


text \<open>
  What makes the body of the \<open>try\<close> block raise: an agent type that \<open>self.agents\<close> does
  not hold, an exception of the agent's pipeline, an exception of the emergency alert
  (and the time limit, below).
\<close>

lemma process_query_try_unknown_agent_type:
  assumes "t \<noteq> []" and "map_of agents t = None"
  shows "process_query_try is_emergency max_response_time c sys query context (Some t)
     = (Inl (AgriGuardException (''Unknown agent type: '' @ t)), sys)"
  using assms by (simp add: process_query_try_def resolve_agent_def)

lemma process_query_try_agent_raises:
  assumes "resolve_agent query context agent_type = Inr a"
    and "agent_process_query c a = Inl e"
  shows "process_query_try is_emergency max_response_time c sys query context agent_type
     = (Inl e, sys)"
  using assms by (simp add: process_query_try_def)

lemma process_query_try_alert_raises:
  assumes "resolve_agent query context agent_type = Inr a"
    and "agent_process_query c a = Inr response"
    and "is_emergency_attr response" and "escalation_required response"
    and "send_emergency_alert c = Some e"
  shows "fst (process_query_try is_emergency max_response_time c sys query context agent_type)
     = Inl e"
  using assms by (simp add: process_query_try_def handle_emergency_response_def Let_def)

text \<open>
  C1, as the code has it. For every query, context and call, when the body of the \<open>try\<close>
  block raises an exception \<open>e\<close> (an unknown agent type, an exception of the agent's
  pipeline, of the emergency handling, or the time-limit exception), \<open>process_query\<close>
  returns a response instead of raising: its agent name is \<open>system\<close>, its confidence is
  the string \<open>low\<close>, its response type is the string \<open>emergency\<close> when the context is in
  an emergency state and the string \<open>information\<close> otherwise, and its summary and
  detailed text carry \<open>str(e)\<close>.
\<close>

theorem process_query_failure_substitute:
  assumes "fst (process_query_try is_emergency max_response_time c sys query context agent_type) = Inl e"
  shows "agent_name (fst (process_query is_emergency max_response_time str c sys query context agent_type)) = ''system''
    \<and> response_type (fst (process_query is_emergency max_response_time str c sys query context agent_type))
        = Str (if is_emergency context then ''emergency'' else ''information'')
    \<and> confidence_score (fst (process_query is_emergency max_response_time str c sys query context agent_type)) = Str ''low''
    \<and> summary_attr (fst (process_query is_emergency max_response_time str c sys query context agent_type))
        = ''System error: '' @ str e
    \<and> detailed_response_attr (fst (process_query is_emergency max_response_time str c sys query context agent_type))
        = ''An error occurred while processing your query: '' @ str e"
  using assms by (simp add: fst_process_query error_response_def)


theorem process_query_failure_substitute_witness:
  "fst (process_query_try example_is_emergency (PyInt 5) slow_call idle_system ''My soil is dry''
          calm_context (Some ''soil''))
     = Inl (AgriGuardException ''Unknown agent type: soil'')
   \<and> agent_name (fst (process_query example_is_emergency (PyInt 5) example_str slow_call idle_system
          ''My soil is dry'' calm_context (Some ''soil''))) = ''system''
   \<and> summary_attr (fst (process_query example_is_emergency (PyInt 5) example_str slow_call idle_system
          ''My soil is dry'' calm_context (Some ''soil'')))
       = ''System error: Unknown agent type: soil''"
proof -
  have raised: "fst (process_query_try example_is_emergency (PyInt 5) slow_call idle_system ''My soil is dry''
          calm_context (Some ''soil''))
     = Inl (AgriGuardException ''Unknown agent type: soil'')"
    by (simp add: process_query_try_def resolve_agent_def agents_def)
  show ?thesis
    using process_query_failure_substitute [OF raised, of example_str]
    by (simp add: raised example_str_def)
qed

text \<open>
  C1 as stated fails: outside an emergency the substitute response has the response type
  \<open>information\<close>, not ADVISORY. Here the agent type \<open>soil\<close> is unknown and the context has
  emergency level 1.
\<close>

theorem process_query_information_counterexample:
  "response_type (fst (process_query example_is_emergency (PyInt 5) example_str slow_call idle_system
      ''My soil is dry'' calm_context (Some ''soil''))) = Str ''information''
   \<and> response_type (fst (process_query example_is_emergency (PyInt 5) example_str slow_call idle_system
      ''My soil is dry'' calm_context (Some ''soil''))) \<noteq> Member ADVISORY"
  by (simp add: process_query_def process_query_try_def resolve_agent_def agents_def
        error_response_def example_is_emergency_def calm_context_def)

text \<open>
  The comparison is one of floats: a budget of \<open>0.7\<close> seconds times 1000 is the float
  \<open>700.0\<close>, although the float \<open>0.7\<close> is below seven tenths, so a response after exactly
  700 milliseconds is within the budget.
\<close>

lemma times_1000_float_budget:
  "times_1000 (PyFloat (double (7/10))) = 700 \<and> double (7/10) * 1000 < 700"
  by code_simp

lemma times_1000_int_budget: "times_1000 (PyInt 5) = 5000"
  by (simp add: times_1000_def)

lemma process_query_within_float_budget:
  "process_query example_is_emergency (PyFloat (double (7/10))) example_str
       (slow_call \<lparr> elapsed_ms := 700 \<rparr>) idle_system
       ''Insects are eating the leaves'' urgent_context None
     = (pest_response \<lparr> response_time_ms := 700 \<rparr>,
        \<lparr> response_times = [700], emergency_count = 1 \<rparr>)"
proof -
  have a: "resolve_agent ''Insects are eating the leaves'' urgent_context None = Inr PestAgent"
    by code_simp
  have b: "times_1000 (PyFloat (double (7/10))) = 700"
    using times_1000_float_budget by simp
  show ?thesis
    by (simp add: process_query_def process_query_try_def a b slow_call_def pest_response_def
          handle_emergency_response_def idle_system_def Let_def)
qed

lemma fdiv_6000_1000: "fdiv 6000 1000 = 6"
  by code_simp

text \<open>
  C3, as the code has it. For every emergency-state context, when the agent returned a
  response, the emergency alert raised nothing and the elapsed time exceeds the value of
  \<open>settings.max_response_time * 1000\<close>, the time-limit exception is raised inside the
  \<open>try\<close> block and caught by its handler: \<open>process_query\<close> returns the substitute
  response built from that exception, and the agent's response is dropped. The elapsed
  time has been appended to the response times, and the emergency counter has been
  incremented if the agent's response is flagged as an emergency, and not otherwise.
\<close>

theorem process_query_slow_emergency:
  assumes "resolve_agent query context agent_type = Inr a"
    and "agent_process_query c a = Inr response"
    and "send_emergency_alert c = None"
    and "is_emergency context"
    and "elapsed_ms c > times_1000 max_response_time"
  shows "process_query is_emergency max_response_time str c sys query context agent_type
     = (error_response is_emergency str c context
          (EmergencyTimeoutException (fdiv (elapsed_ms c) 1000) max_response_time),
        sys \<lparr> response_times := response_times sys @ [elapsed_ms c],
              emergency_count := (if is_emergency_attr response then emergency_count sys + 1
                                  else emergency_count sys) \<rparr>)"
  using assms
  by (simp add: process_query_def process_query_try_def handle_emergency_response_def Let_def)

theorem process_query_slow_emergency_witness:
  "resolve_agent ''Insects are eating the leaves'' urgent_context None = Inr PestAgent
   \<and> agent_process_query slow_call PestAgent = Inr pest_response
   \<and> send_emergency_alert slow_call = None
   \<and> example_is_emergency urgent_context
   \<and> elapsed_ms slow_call > times_1000 (PyInt 5)
   \<and> agent_name (fst (process_query example_is_emergency (PyInt 5) example_str slow_call idle_system
        ''Insects are eating the leaves'' urgent_context None)) = ''system''
   \<and> snd (process_query example_is_emergency (PyInt 5) example_str slow_call idle_system
        ''Insects are eating the leaves'' urgent_context None)
       = \<lparr> response_times = [6000], emergency_count = 1 \<rparr>"
proof -
  have a: "resolve_agent ''Insects are eating the leaves'' urgent_context None = Inr PestAgent"
    by code_simp
  have b: "agent_process_query slow_call PestAgent = Inr pest_response"
    by (simp add: slow_call_def)
  have c: "send_emergency_alert slow_call = None"
    by (simp add: slow_call_def)
  have d: "example_is_emergency urgent_context"
    by (simp add: example_is_emergency_def urgent_context_def)
  have e: "elapsed_ms slow_call > times_1000 (PyInt 5)"
    by (simp add: slow_call_def times_1000_int_budget)
  have f: "process_query example_is_emergency (PyInt 5) example_str slow_call idle_system
        ''Insects are eating the leaves'' urgent_context None
     = (error_response example_is_emergency example_str slow_call urgent_context
          (EmergencyTimeoutException (fdiv (elapsed_ms slow_call) 1000) (PyInt 5)),
        idle_system \<lparr> response_times := response_times idle_system @ [elapsed_ms slow_call],
              emergency_count := (if is_emergency_attr pest_response
                                  then emergency_count idle_system + 1
                                  else emergency_count idle_system) \<rparr>)"
    using a b c d e by (rule process_query_slow_emergency)
  have g: "elapsed_ms slow_call = 6000"
    by (simp add: slow_call_def)
  show ?thesis
    unfolding f
    by (simp add: a b c d g times_1000_int_budget error_response_def idle_system_def
          pest_response_def)
qed

text \<open>
  C3 as stated fails: in an emergency context with a budget of 5 seconds, the pest agent
  answers after 6 seconds; \<open>process_query\<close> does not return the agent's response but a
  response of the agent \<open>system\<close>.
\<close>

theorem process_query_slow_emergency_counterexample:
  "fst (process_query example_is_emergency (PyInt 5) example_str slow_call idle_system
      ''Insects are eating the leaves'' urgent_context None)
     \<noteq> pest_response \<lparr> response_time_ms := 6000 \<rparr>
   \<and> agent_name (fst (process_query example_is_emergency (PyInt 5) example_str slow_call idle_system
      ''Insects are eating the leaves'' urgent_context None)) = ''system''
   \<and> example_is_emergency urgent_context
   \<and> elapsed_ms slow_call > times_1000 (PyInt 5)
   \<and> resolve_agent ''Insects are eating the leaves'' urgent_context None = Inr PestAgent
   \<and> agent_process_query slow_call PestAgent = Inr pest_response"
proof -
  have a: "resolve_agent ''Insects are eating the leaves'' urgent_context None = Inr PestAgent"
    by code_simp
  have b: "agent_process_query slow_call PestAgent = Inr pest_response"
    by (simp add: slow_call_def)
  have c: "send_emergency_alert slow_call = None"
    by (simp add: slow_call_def)
  have d: "example_is_emergency urgent_context"
    by (simp add: example_is_emergency_def urgent_context_def)
  have e: "elapsed_ms slow_call = 6000"
    by (simp add: slow_call_def)
  have r: "fst (process_query example_is_emergency (PyInt 5) example_str slow_call idle_system
      ''Insects are eating the leaves'' urgent_context None)
     = error_response example_is_emergency example_str slow_call urgent_context
          (EmergencyTimeoutException 6 (PyInt 5))"
    by (simp add: process_query_def process_query_try_def a b c d e
          handle_emergency_response_def times_1000_int_budget fdiv_6000_1000 Let_def)
  show ?thesis
    unfolding r
    by (simp add: a d error_response_def pest_response_def slow_call_def blank_response_def
          times_1000_int_budget)
qed

subsection \<open>Batches\<close>

lemma enumerate_map_snd:
  "enumerate n (map g xs) = map (\<lambda>(i, x). (i, g x)) (enumerate n xs)"
  by (induction xs arbitrary: n) simp_all

lemma valid_responses_gather:
  "[r. Inr r \<leftarrow> fst (gather is_emergency max_response_time str calls context i sys tasks)]
     = map (\<lambda>(k, q, t). fst (process_query is_emergency max_response_time str (calls k) sys0 q context t))
         (enumerate i tasks)"
  unfolding fst_gather [where ?sys0.0 = sys0]
  by (rule valid_responses_all) (simp split: prod.splits)

lemma batch_responses:
  assumes "\<forall>query_info\<in>set queries. \<exists>q. map_of query_info ''query'' = Some q"
  shows "\<exists>batch sys'.
      process_batch_queries is_emergency max_response_time str calculate_urgency_score calls
        batch_elapsed_ms sys queries context = (Inr batch, sys')
    \<and> responses batch
        = map (\<lambda>(i, query_info).
                 fst (process_query is_emergency max_response_time str (calls i) sys
                        (the (map_of query_info ''query'')) context
                        (map_of query_info ''agent_type'')))
            (enumerate 0 queries)
    \<and> primary_response batch
        = map_option response_id (py_max calculate_urgency_score (responses batch))"
proof -
  define tasks where
    "tasks = map (\<lambda>query_info. (the (map_of query_info ''query''), map_of query_info ''agent_type'')) queries"
  have t: "task_arguments queries = Inr tasks"
    unfolding tasks_def using assms by (rule task_arguments_present)
  obtain results sys' where
    g: "gather is_emergency max_response_time str calls context 0 sys tasks = (results, sys')"
    by (cases "gather is_emergency max_response_time str calls context 0 sys tasks")
  define valid where "valid = [r. Inr r \<leftarrow> results]"
  have "valid = map (\<lambda>(k, q, t). fst (process_query is_emergency max_response_time str (calls k) sys q context t))
         (enumerate 0 tasks)"
    unfolding valid_def
    using valid_responses_gather [of is_emergency max_response_time str calls "context" 0 sys tasks sys] g
    by simp
  then have v: "valid = map (\<lambda>(i, query_info).
                 fst (process_query is_emergency max_response_time str (calls i) sys
                        (the (map_of query_info ''query'')) context
                        (map_of query_info ''agent_type'')))
            (enumerate 0 queries)"
    by (simp add: tasks_def enumerate_map_snd split_def)
  have pb: "process_batch_queries is_emergency max_response_time str calculate_urgency_score calls
        batch_elapsed_ms sys queries context
      = (let batch = \<lparr> query_attr = ''Batch of '' @ str_nat (length queries) @ '' queries'',
                         responses = valid,
                         total_response_time_ms = batch_elapsed_ms,
                         primary_response = None \<rparr>
         in if valid \<noteq> []
            then (case py_max calculate_urgency_score valid of
                    None \<Rightarrow> (Inl ValueError, sys')
                  | Some primary \<Rightarrow>
                      (Inr (batch \<lparr> primary_response := Some (response_id primary) \<rparr>), sys'))
            else (Inr batch, sys'))"
    unfolding process_batch_queries_def valid_def by (simp add: t g Let_def)
  show ?thesis
  proof (cases valid)
    case Nil
    then show ?thesis
      unfolding pb using v by (simp add: Let_def)
  next
    case (Cons r rs)
    then show ?thesis
      unfolding pb using v by (simp add: Let_def)
  qed
qed

text \<open>
  C4, as the code has it. For every batch of N queries that each hold a \<open>query\<close> key,
  however many of them fail, the batch response holds exactly N responses, the response
  of \<open>process_query\<close> for each query in the order of submission (a failed query is there
  as its substitute response). A primary response is designated if and only if N > 0,
  and then it is the id of the first response whose urgency score no other response
  exceeds: the scores before it are strictly lower, the scores after it are not higher.
\<close>

theorem process_batch_queries_keeps_failed:
  assumes "\<forall>query_info\<in>set queries. \<exists>q. map_of query_info ''query'' = Some q"
  shows "\<exists>batch sys'.
      process_batch_queries is_emergency max_response_time str calculate_urgency_score calls
        batch_elapsed_ms sys queries context = (Inr batch, sys')
    \<and> responses batch
        = map (\<lambda>(i, query_info).
                 fst (process_query is_emergency max_response_time str (calls i) sys
                        (the (map_of query_info ''query'')) context
                        (map_of query_info ''agent_type'')))
            (enumerate 0 queries)
    \<and> (primary_response batch \<noteq> None \<longleftrightarrow> queries \<noteq> [])
    \<and> (queries \<noteq> [] \<longrightarrow>
         (\<exists>pre primary post.
            responses batch = pre @ primary # post
          \<and> primary_response batch = Some (response_id primary)
          \<and> (\<forall>r\<in>set pre. calculate_urgency_score r < calculate_urgency_score primary)
          \<and> (\<forall>r\<in>set post. calculate_urgency_score r \<le> calculate_urgency_score primary)))"
proof -
  from batch_responses [OF assms, of is_emergency max_response_time str calculate_urgency_score
      calls batch_elapsed_ms sys "context"]
  obtain batch sys' where
    run: "process_batch_queries is_emergency max_response_time str calculate_urgency_score calls
        batch_elapsed_ms sys queries context = (Inr batch, sys')"
    and rs: "responses batch
        = map (\<lambda>(i, query_info).
                 fst (process_query is_emergency max_response_time str (calls i) sys
                        (the (map_of query_info ''query'')) context
                        (map_of query_info ''agent_type'')))
            (enumerate 0 queries)"
    and pr: "primary_response batch
        = map_option response_id (py_max calculate_urgency_score (responses batch))"
    by blast
  have len: "length (responses batch) = length queries"
    by (simp add: rs)
  have none: "primary_response batch \<noteq> None \<longleftrightarrow> queries \<noteq> []"
  proof (cases "responses batch")
    case Nil
    then show ?thesis using len pr by simp
  next
    case (Cons r rest)
    then show ?thesis using len pr by auto
  qed
  have first: "\<exists>pre primary post.
            responses batch = pre @ primary # post
          \<and> primary_response batch = Some (response_id primary)
          \<and> (\<forall>r\<in>set pre. calculate_urgency_score r < calculate_urgency_score primary)
          \<and> (\<forall>r\<in>set post. calculate_urgency_score r \<le> calculate_urgency_score primary)"
    if "queries \<noteq> []"
  proof -
    have "responses batch \<noteq> []" using that len by auto
    from py_max_first_max [OF this, of calculate_urgency_score]
    obtain pre m post where
      "py_max calculate_urgency_score (responses batch) = Some m"
      "responses batch = pre @ m # post"
      "\<forall>y\<in>set pre. calculate_urgency_score y < calculate_urgency_score m"
      "\<forall>y\<in>set post. calculate_urgency_score y \<le> calculate_urgency_score m"
      by blast
    then show ?thesis using pr by auto
  qed
  show ?thesis
    using run rs none first by blast
qed

text \<open>
  C10. For every batch whose query records each hold a \<open>query\<close> key, the batch response
  is returned and its list of responses has as many entries as there were queries: every
  gathered result is an \<open>AgentResponse\<close>, so the \<open>isinstance\<close> filter drops none.
\<close>

theorem process_batch_queries_every_entry:
  assumes "\<forall>query_info\<in>set queries. \<exists>q. map_of query_info ''query'' = Some q"
  shows "\<exists>batch sys'.
      process_batch_queries is_emergency max_response_time str calculate_urgency_score calls
        batch_elapsed_ms sys queries context = (Inr batch, sys')
    \<and> length (responses batch) = length queries"
proof -
  from batch_responses [OF assms, of is_emergency max_response_time str calculate_urgency_score
      calls batch_elapsed_ms sys "context"]
  obtain batch sys' where
    "process_batch_queries is_emergency max_response_time str calculate_urgency_score calls
        batch_elapsed_ms sys queries context = (Inr batch, sys')"
    and "responses batch
        = map (\<lambda>(i, query_info).
                 fst (process_query is_emergency max_response_time str (calls i) sys
                        (the (map_of query_info ''query'')) context
                        (map_of query_info ''agent_type'')))
            (enumerate 0 queries)"
    by blast
  then show ?thesis by simp
qed

lemma example_queries_keys:
  "\<forall>query_info\<in>set example_queries. \<exists>q. map_of query_info ''query'' = Some q"
  by (simp add: example_queries_def)

theorem process_batch_queries_every_entry_witness:
  "map_of (example_queries ! 0) ''query'' = Some ''Aphids on my wheat leaves''
   \<and> map_of (example_queries ! 1) ''query'' = Some ''Will it rain tomorrow?''
   \<and> length example_queries = 2
   \<and> (\<exists>batch sys'.
        process_batch_queries example_is_emergency (PyInt 5) example_str example_urgency example_calls
          420 idle_system example_queries calm_context = (Inr batch, sys')
      \<and> length (responses batch) = 2)"
proof -
  have keys: "map_of (example_queries ! 0) ''query'' = Some ''Aphids on my wheat leaves''
      \<and> map_of (example_queries ! 1) ''query'' = Some ''Will it rain tomorrow?''
      \<and> length example_queries = 2"
    by (simp add: example_queries_def)
  show ?thesis
    using process_batch_queries_every_entry [OF example_queries_keys,
        of example_is_emergency "PyInt 5" example_str example_urgency example_calls 420 idle_system
           calm_context]
      keys
    by simp
qed

theorem process_batch_queries_keeps_failed_witness:
  "map_of (example_queries ! 0) ''query'' = Some ''Aphids on my wheat leaves''
   \<and> map_of (example_queries ! 1) ''query'' = Some ''Will it rain tomorrow?''
   \<and> example_queries \<noteq> []
   \<and> (\<exists>batch sys' pre primary post.
        process_batch_queries example_is_emergency (PyInt 5) example_str example_urgency example_calls
          420 idle_system example_queries calm_context = (Inr batch, sys')
      \<and> length (responses batch) = 2
      \<and> primary_response batch = Some (response_id primary)
      \<and> responses batch = pre @ primary # post)"
proof -
  have keys: "map_of (example_queries ! 0) ''query'' = Some ''Aphids on my wheat leaves''
      \<and> map_of (example_queries ! 1) ''query'' = Some ''Will it rain tomorrow?''
      \<and> example_queries \<noteq> [] \<and> length example_queries = 2"
    by (simp add: example_queries_def)
  from process_batch_queries_keeps_failed [OF example_queries_keys,
        of example_is_emergency "PyInt 5" example_str example_urgency example_calls 420 idle_system
           calm_context]
  obtain batch sys' where
    run: "process_batch_queries example_is_emergency (PyInt 5) example_str example_urgency example_calls
          420 idle_system example_queries calm_context = (Inr batch, sys')"
    and rs: "responses batch
        = map (\<lambda>(i, query_info).
                 fst (process_query example_is_emergency (PyInt 5) example_str (example_calls i) idle_system
                        (the (map_of query_info ''query'')) calm_context
                        (map_of query_info ''agent_type'')))
            (enumerate 0 example_queries)"
    and first: "example_queries \<noteq> [] \<longrightarrow>
         (\<exists>pre primary post.
            responses batch = pre @ primary # post
          \<and> primary_response batch = Some (response_id primary)
          \<and> (\<forall>r\<in>set pre. example_urgency r < example_urgency primary)
          \<and> (\<forall>r\<in>set post. example_urgency r \<le> example_urgency primary))"
    by blast
  have len: "length (responses batch) = 2"
    using keys by (simp add: rs)
  from first keys obtain pre primary post where
    "responses batch = pre @ primary # post"
    "primary_response batch = Some (response_id primary)"
    by blast
  then show ?thesis
    using keys run len by blast
qed

text \<open>
  C4 as stated fails: of two queries, the second meets an inference error (N = 2, K = 1);
  the batch holds two responses, the second one the substitute response, not N - K = 1.
\<close>

theorem process_batch_queries_drop_counterexample:
  "fst (process_batch_queries example_is_emergency (PyInt 5) example_str example_urgency example_calls
          420 idle_system example_queries calm_context)
     = Inr \<lparr> query_attr = ''Batch of 2 queries'',
             responses =
               [pest_response \<lparr> response_time_ms := 400 \<rparr>,
                error_response example_is_emergency example_str failing_call calm_context
                  (AgentException ''weather_agent''
                     ''Query processing failed: Network error calling Groq API'')],
             total_response_time_ms = 420,
             primary_response = Some ''response-pest'' \<rparr>
   \<and> agent_process_query (example_calls 0) PestAgent = Inr pest_response
   \<and> agent_process_query (example_calls 1) WeatherAgent
       = Inl (AgentException ''weather_agent''
                ''Query processing failed: Network error calling Groq API'')"
  by code_simp

subsection \<open>The base response parser\<close>

lemma strip_Cons:
  assumes "strip s \<noteq> []"
  shows "\<exists>c cs. strip s = c # cs \<and> \<not> isspace c"
proof -
  define t where "t = dropWhile isspace s"
  have s: "strip s = rev (dropWhile isspace (rev t))"
    by (simp add: strip_def t_def)
  then have "t \<noteq> []" using assms by auto
  then obtain c t' where t: "t = c # t'" by (cases t) auto
  have c: "\<not> isspace c"
    using hd_dropWhile [of isspace s] t unfolding t_def [symmetric] by simp
  have "dropWhile isspace (rev t' @ [c]) = dropWhile isspace (rev t') @ [c]"
    using c by (simp add: dropWhile_append)
  then have "strip s = c # rev (dropWhile isspace (rev t'))"
    using s t by simp
  then show ?thesis using c by blast
qed

lemma split_nl_first_line:
  "c \<noteq> CHR 0x0A \<Longrightarrow> \<exists>l ls. split_nl (c # cs) = (c # l) # ls"
  by (cases "split_nl cs") auto

lemma isspace_newline: "isspace (CHR 0x0A)"
  by (simp add: isspace_def)

lemma parse_response_fallback_summary:
  assumes "strip raw_response \<noteq> []"
    and "\<not> prefix ''{'' (strip raw_response) \<or> json_loads raw_response = Inl JSONDecodeError"
  shows "\<exists>sr s. parse_response json_loads raw_response context = Inr sr
     \<and> summary sr = Some s \<and> s \<noteq> [] \<and> length s \<le> 200
     \<and> s = take 200 (hd (split_nl (strip raw_response)))"
proof -
  from strip_Cons [OF assms(1)] obtain c cs where
    st: "strip raw_response = c # cs" and c: "\<not> isspace c"
    by blast
  have "c \<noteq> CHR 0x0A" using c isspace_newline by auto
  from split_nl_first_line [OF this, of cs] obtain l ls where
    sp: "split_nl (c # cs) = (c # l) # ls"
    by blast
  show ?thesis
    using assms(2) unfolding parse_response_def Let_def st sp
    by auto
qed

text \<open>
  C7, at the empty text and at a text of white space only: neither starts with \<open>{\<close>, so
  the heuristic path is taken and nothing is raised, but \<open>split\<close> returns one empty line
  and the summary is the empty string; the default \<open>Agricultural advice provided\<close> is
  never used. For every other text that is not decoded, \<open>parse_response_fallback_summary\<close>
  above gives the non-empty summary of at most 200 characters.
\<close>

theorem parse_response_blank_summary:
  "parse_response json_loads '''' context
     = Inr \<lparr> summary = Some '''',
             detailed_response = Some '''',
             confidence = Some ''medium'',
             action_items = Some [],
             emergency_indicators =
               Value \<lparr> emergency_detected = Some False,
                       emergency_score = Value 0,
                      keywords_found = Some [] \<rparr> \<rparr>
   \<and> (\<exists>sr. parse_response json_loads [CHR '' '', CHR 0x0A, CHR '' ''] context = Inr sr
          \<and> summary sr = Some '''')"
proof -
  have s0: "strip '''' = ''''"
    by code_simp
  have s1: "strip [CHR '' '', CHR 0x0A, CHR '' ''] = ''''"
    by code_simp
  have a: "extract_action_items '''' = []"
    by code_simp
  have e: "detect_emergency_indicators ''''
     = \<lparr> emergency_detected = Some False, emergency_score = Value 0, keywords_found = Some [] \<rparr>"
    by code_simp
  show ?thesis
    by (simp add: parse_response_def s0 s1 a e)
qed

end
